theory Spec2Isabelle
  imports Main
begin

section \<open>Python values, exceptions and the built-ins the service calls\<close>

text \<open>
  The values that travel through token payloads and the \<open>data\<close> dictionary:
  Python's \<open>None\<close>, booleans, unbounded integers and strings (a string is a list
  of ASCII characters). Times are whole seconds since the epoch, the resolution at which
  the token library writes and compares the \<open>exp\<close> claim; a \<open>timedelta\<close> is a
  number of seconds.
\<close>

datatype pyval = PNone | PBool bool | PInt int | PStr string

text \<open>
  Every exception class that a modelled path can raise. \<open>HTTPException\<close> carries
  \<open>status_code\<close> and \<open>detail\<close>; the \<open>WWW-Authenticate\<close> header is left out.
\<close>

datatype exn =
    HTTPException nat string
  | JWTError
  | ValueError string
  | TypeError
  | UnknownHashError
  | OperationalError
  | IntegrityError

type_synonym pydict = "string \<rightharpoonup> pyval"

definition dict_get :: "pydict \<Rightarrow> string \<Rightarrow> pyval" where
  \<comment> \<open>\<open>d.get(k)\<close>: \<open>None\<close> for a missing key.\<close>
  "dict_get d k = (case d k of None \<Rightarrow> PNone | Some v \<Rightarrow> v)"

subsection \<open>\<open>str\<close> of an integer\<close>

text \<open>
  The integers this service converts are primary keys of an \<open>Integer\<close> column and
  the decimal strings made of them. The interpreter's limit on conversions of more than
  4300 digits (a \<open>ValueError\<close> of \<open>str\<close> and of \<open>int\<close> in recent versions) is
  out of their reach and is not modelled.
\<close>

definition digit_char :: "nat \<Rightarrow> char" where
  "digit_char d = ''0123456789'' ! d"

fun nat_digits :: "nat \<Rightarrow> string" where
  "nat_digits n =
     (if n < 10 then [digit_char n] else nat_digits (n div 10) @ [digit_char (n mod 10)])"

declare nat_digits.simps [simp del]

definition str_int :: "int \<Rightarrow> string" where
  "str_int n = (if n < 0 then CHR ''-'' # nat_digits (nat (- n)) else nat_digits (nat n))"

fun py_str :: "pyval \<Rightarrow> exn + string" where
  \<comment> \<open>\<open>str(v)\<close>; it raises for none of these values, the sum type keeps the caller's
     \<open>except\<close> branch in the model.\<close>
  "py_str PNone = Inr ''None''"
| "py_str (PBool b) = Inr (if b then ''True'' else ''False'')"
| "py_str (PInt n) = Inr (str_int n)"
| "py_str (PStr s) = Inr s"

subsection \<open>\<open>int\<close> of a value\<close>

definition is_digit :: "char \<Rightarrow> bool" where
  "is_digit c = List.member ''0123456789'' c"

definition digit_val :: "char \<Rightarrow> nat" where
  "digit_val c = of_char c - 48"

definition is_space :: "char \<Rightarrow> bool" where
  \<comment> \<open>The characters \<open>int\<close> skips around the literal of an ASCII string: tab, line
     feed, vertical tab, form feed, carriage return and space.\<close>
  "is_space c =
     List.member [CHR 0x09, CHR 0x0A, CHR 0x0B, CHR 0x0C, CHR 0x0D, CHR 0x20] c"

definition strip :: "string \<Rightarrow> string" where
  "strip s = rev (dropWhile is_space (rev (dropWhile is_space s)))"

fun int_digits :: "nat \<Rightarrow> string \<Rightarrow> nat option" where
  \<comment> \<open>The digits after the first one; a single underscore may separate two digits.\<close>
  "int_digits acc [] = Some acc"
| "int_digits acc (c # cs) =
     (if is_digit c then int_digits (acc * 10 + digit_val c) cs
      else if c = CHR ''_'' then
        (case cs of
           [] \<Rightarrow> None
         | d # ds \<Rightarrow> if is_digit d then int_digits (acc * 10 + digit_val d) ds else None)
      else None)"

definition int_unsigned :: "string \<Rightarrow> nat option" where
  "int_unsigned s =
     (case s of
        [] \<Rightarrow> None
      | c # cs \<Rightarrow> if is_digit c then int_digits (digit_val c) cs else None)"

definition invalid_literal :: exn where
  "invalid_literal = ValueError ''invalid literal for int() with base 10''"

definition int_str :: "string \<Rightarrow> exn + int" where
  \<comment> \<open>\<open>int(s)\<close> for a string: surrounding whitespace, an optional sign, decimal digits.\<close>
  "int_str s =
     (case strip s of
        [] \<Rightarrow> Inl invalid_literal
      | c # cs \<Rightarrow>
          if c = CHR ''-'' then
            (case int_unsigned cs of None \<Rightarrow> Inl invalid_literal | Some n \<Rightarrow> Inr (- int n))
          else if c = CHR ''+'' then
            (case int_unsigned cs of None \<Rightarrow> Inl invalid_literal | Some n \<Rightarrow> Inr (int n))
          else
            (case int_unsigned (c # cs) of
               None \<Rightarrow> Inl invalid_literal
             | Some n \<Rightarrow> Inr (int n)))"

fun py_int :: "pyval \<Rightarrow> exn + int" where
  "py_int PNone = Inl TypeError"
| "py_int (PBool b) = Inr (if b then 1 else 0)"
| "py_int (PInt n) = Inr n"
| "py_int (PStr s) = int_str s"

section \<open>The token library (python-jose), symbolically\<close>

text \<open>
  A bearer credential is either a string that does not parse as a three-part signed
  structure, or a signed structure: the header's algorithm, the key that produced the
  signature, and the claims. The signature is ideal: it verifies exactly under the key
  that made it.

  \<open>jwt.decode\<close> checks structure, algorithm and signature, then the registered
  claims, each only when it is present: \<open>iat\<close> must be an integer; \<open>nbf\<close> must not
  lie after \<open>now\<close>; \<open>exp\<close> must not lie before \<open>now\<close> (the token is expired
  when \<open>exp < now\<close>, so it is still accepted in the second \<open>exp\<close> itself);
  \<open>aud\<close> and \<open>at_hash\<close> are rejected, since the service passes nothing to compare
  them with; \<open>sub\<close> and \<open>jti\<close> must be strings, which is why the issuer
  stringifies the subject. Every error of the library is a \<open>JWTError\<close>.
\<close>

datatype token = Malformed string | Signed string string pydict

definition jwt_encode :: "pydict \<Rightarrow> string \<Rightarrow> string \<Rightarrow> token" where
  "jwt_encode claims key algorithm = Signed algorithm key claims"

definition int_claim :: "pyval \<Rightarrow> exn + int" where
  \<comment> \<open>\<open>int(claims[k])\<close> under \<open>except ValueError\<close>: a \<open>ValueError\<close> becomes a claims
     error, any other exception of \<open>int\<close> escapes.\<close>
  "int_claim v =
     (case py_int v of
        Inl (ValueError _) \<Rightarrow> Inl JWTError
      | Inl e \<Rightarrow> Inl e
      | Inr n \<Rightarrow> Inr n)"

definition validate_iat :: "pydict \<Rightarrow> exn + unit" where
  "validate_iat claims =
     (case claims ''iat'' of
        None \<Rightarrow> Inr ()
      | Some v \<Rightarrow> (case int_claim v of Inl e \<Rightarrow> Inl e | Inr _ \<Rightarrow> Inr ()))"

definition validate_nbf :: "pydict \<Rightarrow> int \<Rightarrow> exn + unit" where
  "validate_nbf claims now =
     (case claims ''nbf'' of
        None \<Rightarrow> Inr ()
      | Some v \<Rightarrow>
          (case int_claim v of
             Inl e \<Rightarrow> Inl e
           | Inr nbf \<Rightarrow> if now < nbf then Inl JWTError else Inr ()))"

definition validate_exp :: "pydict \<Rightarrow> int \<Rightarrow> exn + unit" where
  "validate_exp claims now =
     (case claims ''exp'' of
        None \<Rightarrow> Inr ()
      | Some v \<Rightarrow>
          (case int_claim v of
             Inl e \<Rightarrow> Inl e
           | Inr exp \<Rightarrow> if exp < now then Inl JWTError else Inr ()))"

definition validate_aud :: "pydict \<Rightarrow> exn + unit" where
  \<comment> \<open>The service passes no audience, and no audience claim contains \<open>None\<close>.\<close>
  "validate_aud claims = (case claims ''aud'' of None \<Rightarrow> Inr () | Some _ \<Rightarrow> Inl JWTError)"

definition validate_sub :: "pydict \<Rightarrow> exn + unit" where
  "validate_sub claims =
     (case claims ''sub'' of
        None \<Rightarrow> Inr ()
      | Some (PStr _) \<Rightarrow> Inr ()
      | Some _ \<Rightarrow> Inl JWTError)"

definition validate_jti :: "pydict \<Rightarrow> exn + unit" where
  "validate_jti claims =
     (case claims ''jti'' of
        None \<Rightarrow> Inr ()
      | Some (PStr _) \<Rightarrow> Inr ()
      | Some _ \<Rightarrow> Inl JWTError)"

definition validate_at_hash :: "pydict \<Rightarrow> exn + unit" where
  \<comment> \<open>The service passes no access token to compare the hash with.\<close>
  "validate_at_hash claims =
     (case claims ''at_hash'' of None \<Rightarrow> Inr () | Some _ \<Rightarrow> Inl JWTError)"

definition and_then :: "exn + unit \<Rightarrow> exn + 'a \<Rightarrow> exn + 'a" where
  \<comment> \<open>One check after another: the first exception ends the sequence.\<close>
  "and_then r k = (case r of Inl e \<Rightarrow> Inl e | Inr _ \<Rightarrow> k)"

definition validate_claims :: "pydict \<Rightarrow> int \<Rightarrow> exn + unit" where
  \<comment> \<open>The library's order: iat, nbf, exp, aud, iss, sub, jti, at_hash. The service
     passes no issuer, so \<open>iss\<close> is not checked.\<close>
  "validate_claims claims now =
     and_then (validate_iat claims)
       (and_then (validate_nbf claims now)
          (and_then (validate_exp claims now)
             (and_then (validate_aud claims)
                (and_then (validate_sub claims)
                   (and_then (validate_jti claims) (validate_at_hash claims))))))"

definition jwt_decode :: "token \<Rightarrow> string \<Rightarrow> string list \<Rightarrow> int \<Rightarrow> exn + pydict" where
  "jwt_decode tok key algorithms now =
     (case tok of
        Malformed _ \<Rightarrow> Inl JWTError
      | Signed alg k claims \<Rightarrow>
          if List.member algorithms alg then
            if k = key then
              (case validate_claims claims now of
                 Inl e \<Rightarrow> Inl e
               | Inr _ \<Rightarrow> Inr claims)
            else Inl JWTError
          else Inl JWTError)"

section \<open>auth.py\<close>

definition SECRET_KEY :: string where
  "SECRET_KEY = ''your-secret-key-change-in-production''"

definition ALGORITHM :: string where
  "ALGORITHM = ''HS256''"

definition ACCESS_TOKEN_EXPIRE_MINUTES :: int where
  "ACCESS_TOKEN_EXPIRE_MINUTES = 30"

definition minutes :: "int \<Rightarrow> int" where
  \<comment> \<open>\<open>timedelta(minutes=m)\<close> in seconds.\<close>
  "minutes m = 60 * m"

subsection \<open>Credential hasher\<close>

text \<open>
  \<open>pwd_context = CryptContext(schemes=["bcrypt"])\<close>. The bcrypt computation itself is
  a parameter: \<open>bcrypt_hash\<close> produces a digest (or raises, as on a password with a
  NUL byte), \<open>bcrypt_verify\<close> checks a password
  against a digest that carries a bcrypt identifier (and may still reject its rounds or
  salt with an exception). What the context does around it is modelled: \<open>verify\<close> first
  identifies the digest's scheme by its prefix and raises \<open>UnknownHashError\<close> when no
  configured scheme matches.
\<close>

record CryptContext =
  bcrypt_hash :: "string \<Rightarrow> exn + string"
  bcrypt_verify :: "string \<Rightarrow> string \<Rightarrow> exn + bool"

definition bcrypt_idents :: "string list" where
  "bcrypt_idents = [''$2$'', ''$2a$'', ''$2x$'', ''$2y$'', ''$2b$'']"

definition bcrypt_identify :: "string \<Rightarrow> bool" where
  "bcrypt_identify h = list_ex (\<lambda>p. take (length p) h = p) bcrypt_idents"

definition verify_password :: "CryptContext \<Rightarrow> string \<Rightarrow> string \<Rightarrow> exn + bool" where
  "verify_password pwd_context plain_password hashed_password =
     (if bcrypt_identify hashed_password
      then bcrypt_verify pwd_context plain_password hashed_password
      else Inl UnknownHashError)"

definition get_password_hash :: "CryptContext \<Rightarrow> string \<Rightarrow> exn + string" where
  "get_password_hash pwd_context password = bcrypt_hash pwd_context password"

subsection \<open>Token issuer\<close>

definition stringify_sub :: "pydict \<Rightarrow> pydict" where
  \<comment> \<open>Lines 37 to 42: a present, non-\<open>None\<close> subject becomes its string; were \<open>str\<close>
     to raise, the subject would be dropped.\<close>
  "stringify_sub to_encode =
     (case to_encode ''sub'' of
        None \<Rightarrow> to_encode
      | Some PNone \<Rightarrow> to_encode
      | Some v \<Rightarrow>
          (case py_str v of
             Inr s \<Rightarrow> to_encode(''sub'' \<mapsto> PStr s)
           | Inl _ \<Rightarrow> to_encode(''sub'' := None)))"

definition expiry :: "int option \<Rightarrow> int \<Rightarrow> int" where
  \<comment> \<open>Lines 43 to 46. \<open>if expires_delta:\<close> tests truth, and a zero \<open>timedelta\<close> is
     false like \<open>None\<close>.\<close>
  "expiry expires_delta now =
     (case expires_delta of
        None \<Rightarrow> now + minutes ACCESS_TOKEN_EXPIRE_MINUTES
      | Some d \<Rightarrow> if d \<noteq> 0 then now + d else now + minutes ACCESS_TOKEN_EXPIRE_MINUTES)"

definition token_claims :: "pydict \<Rightarrow> int option \<Rightarrow> int \<Rightarrow> pydict" where
  \<comment> \<open>\<open>to_encode\<close> as it stands when it is handed to \<open>jwt.encode\<close>.\<close>
  "token_claims data expires_delta now =
     (stringify_sub data)(''exp'' \<mapsto> PInt (expiry expires_delta now))"

definition create_access_token :: "pydict \<Rightarrow> int option \<Rightarrow> int \<Rightarrow> token" where
  "create_access_token data expires_delta now =
     jwt_encode (token_claims data expires_delta now) SECRET_KEY ALGORITHM"

subsection \<open>Token verifier\<close>

definition invalid_token :: exn where
  "invalid_token = HTTPException 401 ''Invalid token''"

definition invalid_subject :: exn where
  "invalid_subject = HTTPException 401 ''Invalid token subject''"

definition verify_payload :: "pydict \<Rightarrow> exn + pydict" where
  \<comment> \<open>Lines 60 to 81, the body of the \<open>try\<close> after a successful decode.\<close>
  "verify_payload payload =
     (case dict_get payload ''sub'' of
        PNone \<Rightarrow> Inl invalid_token
      | sub_claim \<Rightarrow>
          (case py_int sub_claim of
             Inl _ \<Rightarrow> Inl invalid_subject
           | Inr user_id \<Rightarrow>
               Inr [''user_id'' \<mapsto> PInt user_id, ''role'' \<mapsto> dict_get payload ''role'']))"

definition verify_token :: "token \<Rightarrow> int \<Rightarrow> exn + pydict" where
  \<comment> \<open>\<open>except JWTError\<close> catches the library's errors only: the \<open>HTTPException\<close>s of
     the body and any other exception pass through.\<close>
  "verify_token credentials now =
     (case jwt_decode credentials SECRET_KEY [ALGORITHM] now of
        Inl JWTError \<Rightarrow> Inl invalid_token
      | Inl e \<Rightarrow> Inl e
      | Inr payload \<Rightarrow> verify_payload payload)"

section \<open>models.py, schemas.py and the store\<close>

definition UserRole_ADMIN :: string where
  "UserRole_ADMIN = ''admin''"

definition UserRole_USER :: string where
  "UserRole_USER = ''user''"

text \<open>
  A row of \<open>users\<close>. The role column is a string column, so a row can hold any string.
  The primary key is written \<open>id'\<close>.
\<close>

record User =
  id' :: int
  username :: string
  email :: string
  hashed_password :: string
  role :: string
  is_active :: bool
  created_at :: int

text \<open>A row of \<open>products\<close>; the float type of \<open>price\<close> is left open.\<close>

record 'f Product =
  product_id :: int
  name :: string
  description :: string
  price :: 'f
  stock :: int
  product_created_at :: int
  updated_at :: int

text \<open>
  The request bodies, after the framework has validated them, and the response models.
  \<open>UserResponse\<close> has the fields of schemas.py (prefixed \<open>resp_\<close>) and no other.
\<close>

datatype UserCreate = UserCreate string string string

datatype UserLogin = UserLogin string string


record UserResponse =
  resp_username :: string
  resp_email :: string
  resp_id :: int
  resp_role :: string
  resp_is_active :: bool
  resp_created_at :: int

record TokenResponse =
  access_token :: token
  token_type :: string
  user :: UserResponse

definition UserResponse_from_attributes :: "User \<Rightarrow> UserResponse" where
  \<comment> \<open>\<open>response_model=schemas.UserResponse\<close> with \<open>from_attributes = True\<close>: the
     response reads the model's declared fields off the row.\<close>
  "UserResponse_from_attributes u =
     \<lparr>resp_username = username u, resp_email = email u, resp_id = id' u,
      resp_role = role u, resp_is_active = is_active u, resp_created_at = created_at u\<rparr>"

text \<open>
  The store as a request sees it through its session: the two tables, the next value of
  each primary-key sequence, and whether the database answers (a statement on a
  database that does not answer raises \<open>OperationalError\<close>).
\<close>

record 'f db =
  users :: "User list"
  products :: "'f Product list"
  user_seq :: int
  product_seq :: int
  db_up :: bool

definition query_user_by_id :: "'f db \<Rightarrow> pyval \<Rightarrow> exn + User option" where
  \<comment> \<open>\<open>db.query(User).filter(User.id == v).first()\<close>; only an integer equals an id.\<close>
  "query_user_by_id d v =
     (if db_up d then
        (case v of
           PInt n \<Rightarrow> Inr (find (\<lambda>u. id' u = n) (users d))
         | _ \<Rightarrow> Inr None)
      else Inl OperationalError)"

definition query_user_by_username :: "'f db \<Rightarrow> string \<Rightarrow> exn + User option" where
  "query_user_by_username d n =
     (if db_up d then Inr (find (\<lambda>u. username u = n) (users d)) else Inl OperationalError)"

definition insert_user :: "'f db \<Rightarrow> User \<Rightarrow> exn + 'f db \<times> User" where
  \<comment> \<open>\<open>db.add\<close>, \<open>db.commit\<close>, \<open>db.refresh\<close>: the row gets the next id; the unique
     constraints on username and email reject a duplicate with \<open>IntegrityError\<close>.\<close>
  "insert_user d u =
     (if db_up d then
        if list_ex (\<lambda>v. username v = username u) (users d) then Inl IntegrityError
        else if list_ex (\<lambda>v. email v = email u) (users d) then Inl IntegrityError
        else
          (let row = u\<lparr>id' := user_seq d\<rparr>
           in Inr (d\<lparr>users := users d @ [row], user_seq := user_seq d + 1\<rparr>, row))
      else Inl OperationalError)"


section \<open>auth.py: identity resolver and access gate\<close>

definition lookup_user :: "'f db \<Rightarrow> pyval \<Rightarrow> exn + User" where
  \<comment> \<open>Lines 101 to 109, the body of the \<open>try\<close>.\<close>
  "lookup_user d user_id =
     (case query_user_by_id d user_id of
        Inl e \<Rightarrow> Inl e
      | Inr None \<Rightarrow> Inl (HTTPException 401 ''User not found'')
      | Inr (Some u) \<Rightarrow> Inr u)"

definition get_current_user :: "'f db \<Rightarrow> token \<Rightarrow> int \<Rightarrow> exn + User" where
  \<comment> \<open>\<open>except Exception\<close> (lines 110 to 115) catches whatever the body raised, the
     body's own \<open>HTTPException\<close> included.\<close>
  "get_current_user d credentials now =
     (case verify_token credentials now of
        Inl e \<Rightarrow> Inl e
      | Inr token_data \<Rightarrow>
          (case lookup_user d (dict_get token_data ''user_id'') of
             Inl _ \<Rightarrow> Inl (HTTPException 401 ''User lookup failed'')
           | Inr u \<Rightarrow> Inr u))"

definition forbidden :: exn where
  "forbidden = HTTPException 403 ''Admin access required''"

definition admin_gate :: "User \<Rightarrow> exn + User" where
  \<comment> \<open>The body of \<open>require_admin\<close>, lines 120 to 125.\<close>
  "admin_gate u = (if role u \<noteq> UserRole_ADMIN then Inl forbidden else Inr u)"

definition require_admin :: "'f db \<Rightarrow> token \<Rightarrow> int \<Rightarrow> exn + User" where
  "require_admin d credentials now =
     (case get_current_user d credentials now of
        Inl e \<Rightarrow> Inl e
      | Inr u \<Rightarrow> admin_gate u)"

section \<open>main.py: the exposed operations\<close>

definition register :: "'f db \<Rightarrow> CryptContext \<Rightarrow> int \<Rightarrow> UserCreate \<Rightarrow> exn + 'f db \<times> User" where
  "register d pwd_context now body =
     (case body of UserCreate uname mail password \<Rightarrow>
        (case query_user_by_username d uname of
           Inl e \<Rightarrow> Inl e
         | Inr (Some existing_user) \<Rightarrow> Inl (ValueError ''User already exists'')
         | Inr None \<Rightarrow>
             (case get_password_hash pwd_context password of
                Inl e \<Rightarrow> Inl e
              | Inr hashed \<Rightarrow>
                  insert_user d
                    \<lparr>id' = 0, username = uname, email = mail,
                     hashed_password = hashed,
                     role = UserRole_USER, is_active = True, created_at = now\<rparr>)))"

definition login_data :: "User \<Rightarrow> pydict" where
  \<comment> \<open>\<open>data={"sub": user.id, "role": user.role}\<close>, line 93.\<close>
  "login_data u = [''sub'' \<mapsto> PInt (id' u), ''role'' \<mapsto> PStr (role u)]"

definition login :: "'f db \<Rightarrow> CryptContext \<Rightarrow> int \<Rightarrow> UserLogin \<Rightarrow> exn + token \<times> string \<times> User" where
  \<comment> \<open>The handler's dictionary \<open>{access_token, token_type, user}\<close> as a triple.\<close>
  "login d pwd_context now body =
     (case body of UserLogin uname password \<Rightarrow>
        (case query_user_by_username d uname of
           Inl e \<Rightarrow> Inl e
         | Inr None \<Rightarrow> Inl (ValueError ''Invalid credentials'')
         | Inr (Some u) \<Rightarrow>
             (case verify_password pwd_context password (hashed_password u) of
                Inl e \<Rightarrow> Inl e
              | Inr ok \<Rightarrow>
                  if ok then Inr (create_access_token (login_data u) None now, ''bearer'', u)
                  else Inl (ValueError ''Invalid credentials''))))"


definition list_products :: "'f db \<Rightarrow> exn + 'f Product list" where
  "list_products d = (if db_up d then Inr (products d) else Inl OperationalError)"

definition get_product :: "'f db \<Rightarrow> int \<Rightarrow> exn + 'f Product" where
  "get_product d pid =
     (if db_up d then
        (case find (\<lambda>p. product_id p = pid) (products d) of
           None \<Rightarrow> Inl (ValueError ''Product not found'')
         | Some p \<Rightarrow> Inr p)
      else Inl OperationalError)"

subsection \<open>The responses the framework builds\<close>

definition register_response ::
  "'f db \<Rightarrow> CryptContext \<Rightarrow> int \<Rightarrow> UserCreate \<Rightarrow> exn + UserResponse" where
  "register_response d pwd_context now body =
     (case register d pwd_context now body of
        Inl e \<Rightarrow> Inl e
      | Inr (d', u) \<Rightarrow> Inr (UserResponse_from_attributes u))"

definition login_response ::
  "'f db \<Rightarrow> CryptContext \<Rightarrow> int \<Rightarrow> UserLogin \<Rightarrow> exn + TokenResponse" where
  "login_response d pwd_context now body =
     (case login d pwd_context now body of
        Inl e \<Rightarrow> Inl e
      | Inr (tok, ty, u) \<Rightarrow>
          Inr \<lparr>access_token = tok, token_type = ty, user = UserResponse_from_attributes u\<rparr>)"

text \<open>
  What the framework does with a handler's exception: an \<open>HTTPException\<close> becomes a
  response with its status code; any other exception has no handler in this
  application and leaves the handler unhandled.
\<close>

datatype outcome = Status nat | Unhandled exn

fun api_edge :: "exn \<Rightarrow> outcome" where
  "api_edge (HTTPException code detail) = Status code"
| "api_edge e = Unhandled e"

subsection \<open>The service as a transition system\<close>




section \<open>Auxiliary definitions for the proofs\<close>

definition shift_digit :: "nat \<Rightarrow> char \<Rightarrow> nat" where
  \<comment> \<open>One step of \<open>int_digits\<close> on a digit.\<close>
  "shift_digit acc c = acc * 10 + digit_val c"


section \<open>Concrete instances used by the closed theorems\<close>

text \<open>
  A stand-in for bcrypt (the digest is the identifier followed by the password), one
  user row and a reachable store holding given rows.
\<close>

definition example_context :: CryptContext where
  "example_context =
     \<lparr>bcrypt_hash = (\<lambda>p. Inr (''$2b$'' @ p)),
      bcrypt_verify = (\<lambda>p h. Inr (h = ''$2b$'' @ p))\<rparr>"

definition alice :: User where
  "alice =
     \<lparr>id' = 42, username = ''alice'', email = ''alice@example.com'',
      hashed_password = ''$2b$secret123'', role = UserRole_USER, is_active = True,
      created_at = 900\<rparr>"

definition store_of :: "User list \<Rightarrow> unit db" where
  "store_of us = \<lparr>users = us, products = [], user_seq = 43, product_seq = 1, db_up = True\<rparr>"

section \<open>\<open>int\<close> reads back what \<open>str\<close> wrote\<close>

lemma digit_char_facts:
  assumes "d < 10"
  shows "is_digit (digit_char d)" and "digit_val (digit_char d) = d"
    and "\<not> is_space (digit_char d)" and "digit_char d \<noteq> CHR ''-''"
    and "digit_char d \<noteq> CHR ''+''"
proof -
  from assms consider "d = 0" | "d = 1" | "d = 2" | "d = 3" | "d = 4"
    | "d = 5" | "d = 6" | "d = 7" | "d = 8" | "d = 9"
    by atomize_elim arith
  then have "is_digit (digit_char d) \<and> digit_val (digit_char d) = d
    \<and> \<not> is_space (digit_char d) \<and> digit_char d \<noteq> CHR ''-'' \<and> digit_char d \<noteq> CHR ''+''"
    by cases (simp_all add: is_digit_def digit_char_def digit_val_def is_space_def)
  then show "is_digit (digit_char d)" and "digit_val (digit_char d) = d"
    and "\<not> is_space (digit_char d)" and "digit_char d \<noteq> CHR ''-''"
    and "digit_char d \<noteq> CHR ''+''"
    by simp_all
qed

lemma is_digit_not_space: "is_digit c \<Longrightarrow> \<not> is_space c"
  by (auto simp: is_digit_def is_space_def)

lemma is_digit_not_sign: "is_digit c \<Longrightarrow> c \<noteq> CHR ''-'' \<and> c \<noteq> CHR ''+''"
  by (auto simp: is_digit_def)

lemma int_digits_append:
  "list_all is_digit xs \<Longrightarrow> int_digits acc (xs @ ys) = int_digits (foldl shift_digit acc xs) ys"
  by (induction xs arbitrary: acc) (simp_all add: shift_digit_def)

lemma nat_digits_all_digits: "list_all is_digit (nat_digits n)"
proof (induction n rule: nat_digits.induct)
  case (1 n)
  show ?case
  proof (cases "n < 10")
    case True
    then show ?thesis by (simp add: nat_digits.simps [of n] digit_char_facts)
  next
    case False
    with 1 show ?thesis
      by (simp add: nat_digits.simps [of n] digit_char_facts)
  qed
qed

lemma nat_digits_not_Nil: "nat_digits n \<noteq> []"
  by (simp add: nat_digits.simps [of n])

lemma foldl_nat_digits:
  "foldl shift_digit acc (nat_digits n) = acc * 10 ^ length (nat_digits n) + n"
proof (induction n arbitrary: acc rule: nat_digits.induct)
  case (1 n)
  show ?case
  proof (cases "n < 10")
    case True
    then show ?thesis
      by (simp add: nat_digits.simps [of n] shift_digit_def digit_char_facts)
  next
    case False
    then have "foldl shift_digit acc (nat_digits n)
        = shift_digit (foldl shift_digit acc (nat_digits (n div 10))) (digit_char (n mod 10))"
      by (simp add: nat_digits.simps [of n])
    also have "\<dots> = (acc * 10 ^ length (nat_digits (n div 10)) + n div 10) * 10 + n mod 10"
      unfolding 1 [OF False] using False by (simp add: shift_digit_def digit_char_facts)
    also have "\<dots> = acc * 10 ^ length (nat_digits n) + n"
      using False by (simp add: nat_digits.simps [of n] algebra_simps)
    finally show ?thesis .
  qed
qed

lemma int_unsigned_nat_digits: "int_unsigned (nat_digits n) = Some n"
proof -
  obtain c cs where cs: "nat_digits n = c # cs"
    using nat_digits_not_Nil [of n] by (cases "nat_digits n") auto
  have dig: "is_digit c"
    using nat_digits_all_digits [of n] cs by simp
  have "int_unsigned (nat_digits n) = int_digits 0 (nat_digits n @ [])"
    using cs dig by (simp add: int_unsigned_def)
  also have "\<dots> = Some n"
    by (simp only: int_digits_append [OF nat_digits_all_digits] foldl_nat_digits) simp
  finally show ?thesis .
qed

lemma strip_id: "xs \<noteq> [] \<Longrightarrow> \<not> is_space (hd xs) \<Longrightarrow> \<not> is_space (last xs) \<Longrightarrow> strip xs = xs"
proof -
  assume ne: "xs \<noteq> []" and h: "\<not> is_space (hd xs)" and l: "\<not> is_space (last xs)"
  have "dropWhile is_space xs = xs"
    using h by (simp add: dropWhile_eq_self_iff)
  moreover have "dropWhile is_space (rev xs) = rev xs"
    using ne l by (simp add: dropWhile_eq_self_iff hd_rev)
  ultimately show ?thesis
    by (simp add: strip_def)
qed

lemma last_nat_digits_digit: "is_digit (last (nat_digits n))"
  using nat_digits_all_digits [of n] nat_digits_not_Nil [of n]
  by (simp add: list_all_iff)

lemma hd_nat_digits_digit: "is_digit (hd (nat_digits n))"
  using nat_digits_all_digits [of n] nat_digits_not_Nil [of n]
  by (simp add: list_all_iff)

lemma int_str_str_int: "int_str (str_int n) = Inr n"
proof (cases "n < 0")
  case True
  have minus: "\<not> is_space CHR ''-''"
    by (simp add: is_space_def)
  have "strip (CHR ''-'' # nat_digits (nat (- n))) = CHR ''-'' # nat_digits (nat (- n))"
    by (rule strip_id)
       (simp_all add: minus nat_digits_not_Nil is_digit_not_space last_nat_digits_digit)
  with True show ?thesis
    by (simp add: int_str_def str_int_def int_unsigned_nat_digits)
next
  case False
  obtain c cs where cs: "nat_digits (nat n) = c # cs"
    using nat_digits_not_Nil [of "nat n"] by (cases "nat_digits (nat n)") auto
  have dig: "is_digit c"
    using nat_digits_all_digits [of "nat n"] cs by simp
  have "strip (nat_digits (nat n)) = nat_digits (nat n)"
    by (rule strip_id)
       (simp_all add: nat_digits_not_Nil is_digit_not_space last_nat_digits_digit hd_nat_digits_digit)
  moreover have "int_unsigned (c # cs) = Some (nat n)"
    using int_unsigned_nat_digits [of "nat n"] cs by simp
  ultimately show ?thesis
    using False cs is_digit_not_sign [OF dig]
    by (simp add: int_str_def str_int_def)
qed

section \<open>Issued tokens, verified\<close>

lemma expiry_cases:
  "expiry None t0 = t0 + 1800"
  "expiry (Some 0) t0 = t0 + 1800"
  "T \<noteq> 0 \<Longrightarrow> expiry (Some T) t0 = t0 + T"
  by (simp_all add: expiry_def minutes_def ACCESS_TOKEN_EXPIRE_MINUTES_def)

lemma login_data_sub: "login_data u ''sub'' = Some (PInt (id' u))"
  by (simp add: login_data_def)

lemma login_data_role: "dict_get (login_data u) ''role'' = PStr (role u)"
  by (simp add: login_data_def dict_get_def)

lemma token_claims_login:
  "token_claims (login_data u) ttl t0 =
     [''sub'' \<mapsto> PStr (str_int (id' u)), ''role'' \<mapsto> PStr (role u),
      ''exp'' \<mapsto> PInt (expiry ttl t0)]"
  by (rule ext) (simp add: token_claims_def stringify_sub_def login_data_def)

lemmas validate_defs =
  validate_claims_def and_then_def validate_iat_def validate_nbf_def validate_exp_def
  validate_aud_def validate_sub_def validate_jti_def validate_at_hash_def int_claim_def

lemma validate_claims_login:
  "validate_claims (token_claims (login_data u) ttl t0) t =
     (if t \<le> expiry ttl t0 then Inr () else Inl JWTError)"
  by (simp add: token_claims_login validate_defs)

lemma jwt_decode_issued:
  "jwt_decode (create_access_token (login_data u) ttl t0) SECRET_KEY [ALGORITHM] t =
     (if t \<le> expiry ttl t0 then Inr (token_claims (login_data u) ttl t0) else Inl JWTError)"
  by (simp add: jwt_decode_def create_access_token_def jwt_encode_def validate_claims_login)

lemma verify_payload_issued:
  "verify_payload (token_claims (login_data u) ttl t0) =
     Inr [''user_id'' \<mapsto> PInt (id' u), ''role'' \<mapsto> PStr (role u)]"
  by (simp add: token_claims_login verify_payload_def dict_get_def int_str_str_int)

lemma verify_token_issued:
  "verify_token (create_access_token (login_data u) ttl t0) t =
     (if t \<le> expiry ttl t0
      then Inr [''user_id'' \<mapsto> PInt (id' u), ''role'' \<mapsto> PStr (role u)]
      else Inl invalid_token)"
  by (simp add: verify_token_def jwt_decode_issued verify_payload_issued)

lemma get_current_user_issued:
  assumes "t \<le> expiry ttl t0"
  shows "get_current_user d (create_access_token (login_data u) ttl t0) t =
     (case lookup_user d (PInt (id' u)) of
        Inl _ \<Rightarrow> Inl (HTTPException 401 ''User lookup failed'')
      | Inr v \<Rightarrow> Inr v)"
  using assms by (simp add: get_current_user_def verify_token_issued dict_get_def)

lemma require_admin_issued:
  assumes "t \<le> expiry ttl t0"
    and "db_up d" and "find (\<lambda>v. id' v = id' u) (users d) = Some w"
  shows "require_admin d (create_access_token (login_data u) ttl t0) t =
     (if role w = UserRole_ADMIN then Inr w else Inl forbidden)"
  using assms get_current_user_issued [of t ttl t0 d u]
  by (simp add: require_admin_def lookup_user_def query_user_by_id_def admin_gate_def)

text \<open>
  Claim C1, as the code has it. The access gate reads the role of the row that the
  identity resolver fetched, never the role claim of the token: for a token that login
  issued for a user, presented within its thirty minutes to a reachable store whose row
  for that id is \<open>u\<close>, the resolver returns \<open>u\<close> and the admin gate lets the
  request through exactly when the stored role of \<open>u\<close> is ADMIN.
\<close>

theorem stored_role_decides:
  assumes "db_up d" and "find (\<lambda>v. id' v = id' u0) (users d) = Some u"
    and "t \<le> t0 + 1800"
  shows "get_current_user d (create_access_token (login_data u0) None t0) t = Inr u
    \<and> require_admin d (create_access_token (login_data u0) None t0) t =
        (if role u = UserRole_ADMIN then Inr u else Inl forbidden)"
  using assms get_current_user_issued [of t None t0 d u0]
    require_admin_issued [of t None t0 d u0 u]
  by (simp add: expiry_cases lookup_user_def query_user_by_id_def)

text \<open>
  An instance of C1's theorem: a token issued while the user was ADMIN is refused with
  403 once the stored role is USER.
\<close>

theorem stored_role_decides_witness:
  "get_current_user (store_of [alice\<lparr>role := UserRole_USER\<rparr>])
      (create_access_token (login_data (alice\<lparr>role := UserRole_ADMIN\<rparr>)) None 1000) 1060
     = Inr (alice\<lparr>role := UserRole_USER\<rparr>)
   \<and> require_admin (store_of [alice\<lparr>role := UserRole_USER\<rparr>])
      (create_access_token (login_data (alice\<lparr>role := UserRole_ADMIN\<rparr>)) None 1000) 1060
     = Inl (HTTPException 403 ''Admin access required'')"
  using stored_role_decides [of "store_of [alice\<lparr>role := UserRole_USER\<rparr>]"
      "alice\<lparr>role := UserRole_ADMIN\<rparr>" "alice\<lparr>role := UserRole_USER\<rparr>" 1060 1000]
  by (simp add: store_of_def alice_def UserRole_ADMIN_def UserRole_USER_def forbidden_def)

text \<open>
  Claim C1 as the spec words it fails: the token was issued for user 42 with role USER
  and still carries that role claim, the stored role has become ADMIN, and the admin
  gate accepts the request.
\<close>

theorem stale_role_counterexample:
  "verify_token (create_access_token (login_data alice) None 1000) 1060
     = Inr [''user_id'' \<mapsto> PInt 42, ''role'' \<mapsto> PStr ''user'']
   \<and> require_admin (store_of [alice\<lparr>role := UserRole_ADMIN\<rparr>])
        (create_access_token (login_data alice) None 1000) 1060
     = Inr (alice\<lparr>role := UserRole_ADMIN\<rparr>)"
proof
  show "verify_token (create_access_token (login_data alice) None 1000) 1060
     = Inr [''user_id'' \<mapsto> PInt 42, ''role'' \<mapsto> PStr ''user'']"
    using verify_token_issued [of alice None 1000 1060]
    by (simp add: expiry_cases alice_def UserRole_USER_def)
  show "require_admin (store_of [alice\<lparr>role := UserRole_ADMIN\<rparr>])
        (create_access_token (login_data alice) None 1000) 1060
     = Inr (alice\<lparr>role := UserRole_ADMIN\<rparr>)"
    using require_admin_issued [of 1060 None 1000
        "store_of [alice\<lparr>role := UserRole_ADMIN\<rparr>]" alice "alice\<lparr>role := UserRole_ADMIN\<rparr>"]
    by (simp add: expiry_cases alice_def store_of_def)
qed

lemma int_str_error: "int_str s = Inl e \<Longrightarrow> e = invalid_literal"
  by (auto simp: int_str_def split: list.splits if_splits option.splits)

lemma py_int_error: "py_int v = Inl e \<Longrightarrow> e = TypeError \<or> e = invalid_literal"
  by (cases v) (auto dest: int_str_error)

lemma int_claim_error: "int_claim v = Inl e \<Longrightarrow> e = JWTError \<or> e = TypeError"
  by (auto simp: int_claim_def invalid_literal_def split: sum.splits exn.splits
      dest!: py_int_error)

lemma validate_iat_error: "validate_iat claims = Inl e \<Longrightarrow> e = JWTError \<or> e = TypeError"
  by (auto simp: validate_iat_def split: option.splits sum.splits dest: int_claim_error)

lemma validate_nbf_error: "validate_nbf claims now = Inl e \<Longrightarrow> e = JWTError \<or> e = TypeError"
  by (auto simp: validate_nbf_def split: option.splits sum.splits if_splits
      dest: int_claim_error)

lemma validate_exp_error: "validate_exp claims now = Inl e \<Longrightarrow> e = JWTError \<or> e = TypeError"
  by (auto simp: validate_exp_def split: option.splits sum.splits if_splits
      dest: int_claim_error)

lemma validate_aud_error: "validate_aud claims = Inl e \<Longrightarrow> e = JWTError"
  by (auto simp: validate_aud_def split: option.splits)

lemma validate_sub_error: "validate_sub claims = Inl e \<Longrightarrow> e = JWTError"
  by (auto simp: validate_sub_def split: option.splits pyval.splits)

lemma validate_jti_error: "validate_jti claims = Inl e \<Longrightarrow> e = JWTError"
  by (auto simp: validate_jti_def split: option.splits pyval.splits)

lemma validate_at_hash_error: "validate_at_hash claims = Inl e \<Longrightarrow> e = JWTError"
  by (auto simp: validate_at_hash_def split: option.splits)

lemma and_then_error:
  "and_then r k = Inl e \<Longrightarrow> r = Inl e \<or> k = Inl e"
  by (auto simp: and_then_def split: sum.splits)

lemma validate_claims_error:
  "validate_claims claims now = Inl e \<Longrightarrow> e = JWTError \<or> e = TypeError"
  unfolding validate_claims_def
  by (auto dest!: and_then_error
      dest: validate_iat_error validate_nbf_error validate_exp_error validate_aud_error
        validate_sub_error validate_jti_error validate_at_hash_error)

lemma jwt_decode_error:
  "jwt_decode tok key algs now = Inl e \<Longrightarrow> e = JWTError \<or> e = TypeError"
  by (auto simp: jwt_decode_def split: token.splits if_splits sum.splits
      dest: validate_claims_error)

lemma verify_payload_error:
  "verify_payload payload = Inl e \<Longrightarrow> e = invalid_token \<or> e = invalid_subject"
  by (auto simp: verify_payload_def split: pyval.splits sum.splits)

lemma verify_token_error:
  "verify_token tok now = Inl e \<Longrightarrow> e = invalid_token \<or> e = invalid_subject \<or> e = TypeError"
  by (auto simp: verify_token_def split: sum.splits exn.splits
      dest: jwt_decode_error verify_payload_error)

lemma get_current_user_never_not_found:
  "get_current_user d tok now \<noteq> Inl (HTTPException 401 ''User not found'')"
  by (auto simp: get_current_user_def invalid_token_def invalid_subject_def
      split: sum.splits dest!: verify_token_error)

text \<open>
  Claim C2 at a failing input: a valid token for user 42 and a reachable store with no
  such row. The body of the \<open>try\<close> raises 401 "User not found", the enclosing
  \<open>except Exception\<close> catches it, and the caller gets 401 "User lookup failed", the
  error meant for a store fault.
\<close>

theorem missing_user_reports_lookup_failed:
  "get_current_user (store_of []) (create_access_token (login_data alice) None 1000) 1060
     = Inl (HTTPException 401 ''User lookup failed'')
   \<and> lookup_user (store_of []) (PInt 42) = Inl (HTTPException 401 ''User not found'')"
  using get_current_user_issued [of 1060 None 1000 "store_of []" alice]
  by (simp add: expiry_cases alice_def store_of_def lookup_user_def query_user_by_id_def)

text \<open>
  Claim C3 at a failing input: registering a username that is already stored raises
  \<open>ValueError\<close>, which is not an \<open>HTTPException\<close>, so no status is made of it
  and it leaves the handler unhandled.
\<close>

theorem duplicate_username_raises_ValueError:
  "register (store_of [alice]) example_context 1000
      (UserCreate ''alice'' ''other@example.com'' ''pw'')
     = Inl (ValueError ''User already exists'')
   \<and> api_edge (ValueError ''User already exists'') = Unhandled (ValueError ''User already exists'')"
  by (simp add: register_def query_user_by_username_def store_of_def alice_def)






section \<open>Token issuer: what the claims hold\<close>

text \<open>
  Claim C6 at a failing input: issued at second 1000 with a time-to-live of zero, the
  claims carry the subject as the string "42", but \<open>exp\<close> is 2800, thirty minutes
  after issuance, not 1000: the token is the one issued when no time-to-live is given.
\<close>

theorem zero_ttl_gets_default_expiry:
  "token_claims [''sub'' \<mapsto> PInt 42, ''role'' \<mapsto> PStr ''user''] (Some 0) 1000 ''exp''
     = Some (PInt 2800)
   \<and> token_claims [''sub'' \<mapsto> PInt 42, ''role'' \<mapsto> PStr ''user''] (Some 0) 1000 ''sub''
     = Some (PStr ''42'')
   \<and> create_access_token [''sub'' \<mapsto> PInt 42, ''role'' \<mapsto> PStr ''user''] (Some 0) 1000
     = create_access_token [''sub'' \<mapsto> PInt 42, ''role'' \<mapsto> PStr ''user''] None 1000"
  by (simp add: create_access_token_def token_claims_def stringify_sub_def expiry_cases str_int_def
      nat_digits.simps digit_char_def)

lemma token_claims_nonzero_ttl:
  assumes "data ''sub'' = Some v" and "v \<noteq> PNone" and "py_str v = Inr s" and "T \<noteq> 0"
  shows "token_claims data (Some T) now ''sub'' = Some (PStr s)"
    and "token_claims data (Some T) now ''role'' = data ''role''"
    and "token_claims data (Some T) now ''exp'' = Some (PInt (now + T))"
  using assms by (auto simp: token_claims_def stringify_sub_def expiry_cases split: pyval.splits)

section \<open>Token lifetime\<close>

text \<open>
  Claim C7, as the code has it. A token that the issuer writes for a stored user (the
  claims of login: the user's id and role) at \<open>t0\<close> with a time-to-live \<open>T\<close> other
  than zero, or with none (then \<open>T\<close> is thirty minutes), verifies at every second up
  to and including \<open>t0 + T\<close> and is rejected as "Invalid token" at every later second.
\<close>

theorem token_lifetime:
  assumes "ttl \<noteq> Some 0"
  shows "verify_token (create_access_token (login_data u) ttl t0) t =
     (if t \<le> t0 + (case ttl of None \<Rightarrow> 30 * 60 | Some T \<Rightarrow> T)
      then Inr [''user_id'' \<mapsto> PInt (id' u), ''role'' \<mapsto> PStr (role u)]
      else Inl (HTTPException 401 ''Invalid token''))"
  using assms verify_token_issued [of u ttl t0 t]
  by (cases ttl) (simp_all add: expiry_cases invalid_token_def)

text \<open>
  Instances of C7's theorem: a one-minute token at its last valid second and one second
  later, and the same for a token issued without a time-to-live.
\<close>

theorem token_lifetime_witness:
  "verify_token (create_access_token (login_data alice) (Some 60) 1000) 1060
     = Inr [''user_id'' \<mapsto> PInt 42, ''role'' \<mapsto> PStr ''user'']
   \<and> verify_token (create_access_token (login_data alice) (Some 60) 1000) 1061
     = Inl (HTTPException 401 ''Invalid token'')
   \<and> verify_token (create_access_token (login_data alice) None 1000) 2800
     = Inr [''user_id'' \<mapsto> PInt 42, ''role'' \<mapsto> PStr ''user'']
   \<and> verify_token (create_access_token (login_data alice) None 1000) 2801
     = Inl (HTTPException 401 ''Invalid token'')"
  using token_lifetime [of "Some 60" alice 1000 1060]
    token_lifetime [of "Some 60" alice 1000 1061]
    token_lifetime [of None alice 1000 2800]
    token_lifetime [of None alice 1000 2801]
  by (simp add: alice_def UserRole_USER_def)

text \<open>
  Claim C7 as the spec words it fails: a token issued at second 1000 for one minute
  still verifies at second 1060, the end of the half-open interval; and a token issued
  with a time-to-live of zero verifies at the second of its issuance.
\<close>

theorem token_lifetime_counterexample:
  "verify_token (create_access_token (login_data alice) (Some 60) 1000) 1060
     = Inr [''user_id'' \<mapsto> PInt 42, ''role'' \<mapsto> PStr ''user'']
   \<and> verify_token (create_access_token (login_data alice) (Some 0) 1000) 1000
     = Inr [''user_id'' \<mapsto> PInt 42, ''role'' \<mapsto> PStr ''user'']"
  using verify_token_issued [of alice "Some 60" 1000 1060]
    verify_token_issued [of alice "Some 0" 1000 1000]
  by (simp add: expiry_cases alice_def UserRole_USER_def)

section \<open>Password verification\<close>

text \<open>
  Claim C8, as the code has it. \<open>verify_password\<close> has no handler of its own: on a
  digest that carries a bcrypt identifier its outcome is the bcrypt handler's, a boolean
  or an exception; on any other digest it raises \<open>UnknownHashError\<close>. It returns a
  boolean only for an identified digest, and login passes the exception on.
\<close>

theorem verify_password_outcomes:
  "(bcrypt_identify h \<longrightarrow> verify_password ctx p h = bcrypt_verify ctx p h)
   \<and> (\<not> bcrypt_identify h \<longrightarrow> verify_password ctx p h = Inl UnknownHashError)
   \<and> (verify_password ctx p h = Inr b \<longrightarrow> bcrypt_identify h \<and> bcrypt_verify ctx p h = Inr b)
   \<and> (db_up d \<and> find (\<lambda>u. username u = n) (users d) = Some u
        \<and> \<not> bcrypt_identify (hashed_password u) \<longrightarrow>
        login d ctx now (UserLogin n p) = Inl UnknownHashError)"
  by (auto simp: verify_password_def login_def query_user_by_username_def)

text \<open>
  Instances of C8's theorem: the right password, a wrong one, a stored digest without
  identifier, and a login against such a row.
\<close>

theorem verify_password_outcomes_witness:
  "verify_password example_context ''secret123'' ''$2b$secret123'' = Inr True
   \<and> verify_password example_context ''guess'' ''$2b$secret123'' = Inr False
   \<and> verify_password example_context ''secret123'' ''secret123'' = Inl UnknownHashError
   \<and> login (store_of [alice\<lparr>hashed_password := ''secret123''\<rparr>]) example_context 1000
        (UserLogin ''alice'' ''secret123'') = Inl UnknownHashError"
proof -
  have a: "bcrypt_identify ''$2b$secret123''" and b: "\<not> bcrypt_identify ''secret123''"
    by (simp_all add: bcrypt_identify_def bcrypt_idents_def)
  let ?d = "store_of [alice\<lparr>hashed_password := ''secret123''\<rparr>]"
  let ?u = "alice\<lparr>hashed_password := ''secret123''\<rparr>"
  have c: "db_up ?d \<and> find (\<lambda>u. username u = ''alice'') (users ?d) = Some ?u
      \<and> \<not> bcrypt_identify (hashed_password ?u)"
    using b by (simp add: store_of_def alice_def)
  show ?thesis
    using a b c
      verify_password_outcomes [of "''$2b$secret123''" example_context "''secret123''" True
        ?d "''alice''" ?u 1000]
      verify_password_outcomes [of "''$2b$secret123''" example_context "''guess''" False
        ?d "''alice''" ?u 1000]
      verify_password_outcomes [of "''secret123''" example_context "''secret123''" True
        ?d "''alice''" ?u 1000]
    by (simp add: example_context_def)
qed

text \<open>
  Claim C8 as the spec words it fails: on a stored digest that is no bcrypt digest,
  verification raises instead of reporting false.
\<close>

theorem malformed_digest_counterexample:
  "verify_password example_context ''secret123'' ''not-a-bcrypt-digest'' = Inl UnknownHashError"
  by (simp add: verify_password_def bcrypt_identify_def bcrypt_idents_def)

section \<open>What the responses carry\<close>

lemma register_Inr:
  assumes "register d ctx now (UserCreate n m p) = Inr (d', u)"
  shows "\<exists>h. get_password_hash ctx p = Inr h
          \<and> u = \<lparr>id' = user_seq d, username = n, email = m, hashed_password = h,
                  role = UserRole_USER, is_active = True, created_at = now\<rparr>"
    and "d' = d\<lparr>users := users d @ [u], user_seq := user_seq d + 1\<rparr>"
  using assms
  by (auto simp: register_def insert_user_def Let_def query_user_by_username_def
      split: if_splits sum.splits option.splits)

lemma login_Inr:
  assumes "login d ctx now (UserLogin n p) = Inr (tok, ty, u)"
  shows "find (\<lambda>u. username u = n) (users d) = Some u"
    and "ty = ''bearer''"
    and "tok = create_access_token (login_data u) None now"
    and "verify_password ctx p (hashed_password u) = Inr True"
  using assms
  by (auto simp: login_def query_user_by_username_def
      split: if_splits sum.splits option.splits)

lemma login_token:
  "create_access_token (login_data u) None now =
     Signed ALGORITHM SECRET_KEY
       [''sub'' \<mapsto> PStr (str_int (id' u)), ''role'' \<mapsto> PStr (role u),
        ''exp'' \<mapsto> PInt (now + 1800)]"
  by (simp add: create_access_token_def jwt_encode_def token_claims_login expiry_cases)

text \<open>
  Claim C9. A successful registration answers with exactly username, email, id, role,
  active flag and creation time of the new row; a successful login answers with the
  same six fields of the stored row, the token type, and a token whose claims are the
  subject, the role and the expiry. The response model has no field for the password
  hash, and the response of a row does not change when its hash does.
\<close>

theorem responses_omit_password_hash:
  "(register_response d ctx now (UserCreate n m p) = Inr r \<longrightarrow>
      r = \<lparr>resp_username = n, resp_email = m, resp_id = user_seq d,
           resp_role = UserRole_USER, resp_is_active = True, resp_created_at = now\<rparr>)
   \<and> (login_response d ctx now (UserLogin n p) = Inr t \<longrightarrow>
        (\<exists>u. find (\<lambda>u. username u = n) (users d) = Some u
           \<and> user t = UserResponse_from_attributes u
           \<and> token_type t = ''bearer''
           \<and> access_token t =
               Signed ALGORITHM SECRET_KEY
                 [''sub'' \<mapsto> PStr (str_int (id' u)), ''role'' \<mapsto> PStr (role u),
                  ''exp'' \<mapsto> PInt (now + 1800)]))
   \<and> UserResponse_from_attributes (u\<lparr>hashed_password := h\<rparr>) = UserResponse_from_attributes u"
proof (intro conjI impI)
  assume "register_response d ctx now (UserCreate n m p) = Inr r"
  then obtain d' v where reg: "register d ctx now (UserCreate n m p) = Inr (d', v)"
    and r: "r = UserResponse_from_attributes v"
    by (auto simp: register_response_def split: sum.splits)
  show "r = \<lparr>resp_username = n, resp_email = m, resp_id = user_seq d,
           resp_role = UserRole_USER, resp_is_active = True, resp_created_at = now\<rparr>"
    using register_Inr(1) [OF reg] r by (auto simp: UserResponse_from_attributes_def)
next
  assume "login_response d ctx now (UserLogin n p) = Inr t"
  then obtain tok ty v where lg: "login d ctx now (UserLogin n p) = Inr (tok, ty, v)"
    and t: "t = \<lparr>access_token = tok, token_type = ty, user = UserResponse_from_attributes v\<rparr>"
    by (auto simp: login_response_def split: sum.splits)
  show "\<exists>u. find (\<lambda>u. username u = n) (users d) = Some u
           \<and> user t = UserResponse_from_attributes u
           \<and> token_type t = ''bearer''
           \<and> access_token t =
               Signed ALGORITHM SECRET_KEY
                 [''sub'' \<mapsto> PStr (str_int (id' u)), ''role'' \<mapsto> PStr (role u),
                  ''exp'' \<mapsto> PInt (now + 1800)]"
    using login_Inr [OF lg] t by (intro exI [of _ v]) (simp add: login_token)
next
  show "UserResponse_from_attributes (u\<lparr>hashed_password := h\<rparr>) = UserResponse_from_attributes u"
    by (simp add: UserResponse_from_attributes_def)
qed

text \<open>
  Instances of C9's theorem: a registration and a login that succeed.
\<close>

theorem responses_omit_password_hash_witness:
  "register_response (store_of []) example_context 1000
      (UserCreate ''bob'' ''bob@example.com'' ''hunter2'')
     = Inr \<lparr>resp_username = ''bob'', resp_email = ''bob@example.com'', resp_id = 43,
            resp_role = ''user'', resp_is_active = True, resp_created_at = 1000\<rparr>
   \<and> (\<exists>t. login_response (store_of [alice]) example_context 1000
              (UserLogin ''alice'' ''secret123'') = Inr t
          \<and> user t = \<lparr>resp_username = ''alice'', resp_email = ''alice@example.com'',
                resp_id = 42, resp_role = ''user'', resp_is_active = True,
                resp_created_at = 900\<rparr>)"
proof -
  let ?r = "\<lparr>resp_username = ''bob'', resp_email = ''bob@example.com'', resp_id = 43,
            resp_role = ''user'', resp_is_active = True, resp_created_at = 1000\<rparr>"
  let ?t = "\<lparr>access_token = create_access_token (login_data alice) None 1000,
            token_type = ''bearer'', user = UserResponse_from_attributes alice\<rparr>"
  have reg: "register_response (store_of []) example_context 1000
      (UserCreate ''bob'' ''bob@example.com'' ''hunter2'') = Inr ?r"
    by (simp add: register_response_def register_def query_user_by_username_def insert_user_def
        store_of_def UserResponse_from_attributes_def UserRole_USER_def Let_def
        get_password_hash_def example_context_def)
  have lg: "login_response (store_of [alice]) example_context 1000
      (UserLogin ''alice'' ''secret123'') = Inr ?t"
    by (simp add: login_response_def login_def query_user_by_username_def store_of_def alice_def
        verify_password_def bcrypt_identify_def bcrypt_idents_def example_context_def)
  show ?thesis
    using reg lg
      responses_omit_password_hash [where d = "store_of []" and ctx = example_context
        and now = 1000 and n = "''bob''" and m = "''bob@example.com''" and p = "''hunter2''"
        and r = ?r]
      responses_omit_password_hash [where d = "store_of [alice]" and ctx = example_context
        and now = 1000 and n = "''alice''" and p = "''secret123''" and t = ?t]
    by (simp add: UserResponse_from_attributes_def alice_def UserRole_USER_def)
qed


section \<open>No administrator through the public flow\<close>











end
